theory Spec2Isabelle
  imports Main "HOL-Library.Sublist"
begin

section \<open>The cluster controller of pkg/controller\<close>

text \<open>
  A shallow embedding of the per-cluster reconciliation controller: the state constants,
  \<open>run\<close>, \<open>transition\<close>, \<open>plan\<close>, \<open>provision\<close>, \<open>destroy\<close>, \<open>install\<close> and
  \<open>buildPlan\<close>. The controller's collaborators (the cluster store, the provisioner, the
  executor, the plan template writer and reader) are interfaces whose implementations are
  not part of the source: they are parameters of the model, collected in the record
  \<open>env\<close>. Every call to a collaborator is appended to a history, and a collaborator's
  answer may depend on the whole history, so a stateful or flaky collaborator is covered.
\<close>

subsection \<open>State constants\<close>

definition planning :: string where "planning = ''planning''"
definition planningFailed :: string where "planningFailed = ''planningFailed''"
definition planned :: string where "planned = ''planned''"
definition provisioning :: string where "provisioning = ''provisioning''"
definition provisionFailed :: string where "provisionFailed = ''provisionFailed''"
definition provisioned :: string where "provisioned = ''provisioned''"
definition installing :: string where "installing = ''installing''"
definition installFailed :: string where "installFailed = ''installFailed''"
definition installed :: string where "installed = ''installed''"
definition modifying :: string where "modifying = ''modifying''"
definition modifyFailed :: string where "modifyFailed = ''modifyFailed''"
definition destroying :: string where "destroying = ''destroying''"
definition destroyFailed :: string where "destroyFailed = ''destroyFailed''"
definition destroyed :: string where "destroyed = ''destroyed''"

lemmas state_defs =
  planning_def planningFailed_def planned_def provisioning_def provisionFailed_def
  provisioned_def installing_def installFailed_def installed_def modifying_def
  modifyFailed_def destroying_def destroyFailed_def destroyed_def

subsection \<open>Data\<close>

text \<open>A Go \<open>error\<close> is its message; \<open>nil\<close> is \<open>None\<close> of \<open>error option\<close>.\<close>

type_synonym error = string

text \<open>
  Modelled from the spec: the declarations of \<open>store.Cluster\<close>, \<open>store.ClusterSpec\<close> and
  \<open>store.ClusterStatus\<close> are missing from the source. The fields are the ones the
  controller reads and writes, under the names it uses, completed by the persisted state
  shape the spec lists (the provider options, which the controller never reads, are kept
  as an opaque value that only takes part in the comparison of two specs).
\<close>

record store_Provisioner =
  Provider :: string
  Options :: string

record ClusterSpec =
  DesiredState :: string
  EtcdCount :: int
  MasterCount :: int
  WorkerCount :: int
  IngressCount :: int
  Provisioner :: store_Provisioner

record ClusterStatus =
  CurrentState :: string
  WaitingForManualRetry :: bool
  ClusterIP :: string

record Cluster =
  Spec :: ClusterSpec
  Status :: ClusterStatus

text \<open>
  Modelled from the spec: the declarations of \<open>install.Plan\<close>,
  \<open>install.PlanTemplateOptions\<close>, \<open>install.Provisioner\<close> and
  \<open>install.AWSProvisionerOptions\<close> are missing from the source. The plan keeps the fields
  the controller touches: \<open>Cluster.Name\<close>, \<open>Cluster.AdminPassword\<close>, \<open>Provisioner\<close>,
  \<open>AddOns.CNI.Provider\<close> and \<open>Master.LoadBalancedFQDN\<close>. Of the AWS options only the zero
  value is ever built; the region is the option the source's TODO names.
\<close>

record PlanTemplateOptions =
  AdminPassword :: string
  EtcdNodes :: int
  MasterNodes :: int
  WorkerNodes :: int
  IngressNodes :: int

record AWSProvisionerOptions =
  Region :: string

definition AWSProvisionerOptions_zero :: AWSProvisionerOptions where
  "AWSProvisionerOptions_zero = \<lparr>Region = []\<rparr>"

record install_Provisioner =
  Provisioner_Provider :: string
  Provisioner_AWSOptions :: "AWSProvisionerOptions option"

record install_Cluster =
  Cluster_Name :: string
  Cluster_AdminPassword :: string

record CNI =
  CNI_Provider :: string

record AddOns =
  AddOns_CNI :: CNI

record MasterNodeGroup =
  LoadBalancedFQDN :: string

record Plan =
  Plan_Cluster :: install_Cluster
  Plan_Provisioner :: install_Provisioner
  Plan_AddOns :: AddOns
  Plan_Master :: MasterNodeGroup

text \<open>
  The calls the controller makes, in the order it makes them. \<open>Ev_Transition\<close> records
  that the loop invoked \<open>transition\<close>, with the record it passed.
\<close>

datatype call =
    Ev_Get string
  | Ev_Put string Cluster
  | Ev_Delete string
  | Ev_Transition Cluster
  | Ev_Provision Cluster Plan
  | Ev_Destroy Cluster string
  | Ev_RunPreFlightCheck Plan
  | Ev_GenerateCertificates Plan bool
  | Ev_GenerateKubeconfig Plan
  | Ev_Install Plan bool
  | Ev_RunSmokeTest Plan

text \<open>
  The collaborators. Each takes the history of the calls made before it. A method that
  receives \<open>&plan\<close> may change the plan, so it returns the plan it leaves behind; a
  method that returns a pointer and an error returns one of the two.
  \<open>Provision\<close> and \<open>Destroy\<close> belong to the provisioner that \<open>newProvisioner\<close> builds from
  the cluster record. \<open>WritePlanTemplate\<close> writes the template into the planner and
  \<open>Read\<close> reads the plan back from it; \<open>NetworkConfigured\<close> is the method of the plan.
  \<open>GetErr\<close>, \<open>PutErr\<close> and \<open>DeleteErr\<close> say when the store fails; \<open>External\<close> is what
  other parties have written to the store since the controller last read it: an edit of
  the spec, a cleared flag.
\<close>

record env =
  WritePlanTemplate :: "PlanTemplateOptions \<Rightarrow> error + string"
  Read :: "string \<Rightarrow> error + Plan"
  NetworkConfigured :: "Plan \<Rightarrow> bool"
  Provision :: "call list \<Rightarrow> Cluster \<Rightarrow> Plan \<Rightarrow> error + Plan"
  Destroy :: "call list \<Rightarrow> Cluster \<Rightarrow> string \<Rightarrow> error option"
  RunPreFlightCheck :: "call list \<Rightarrow> Plan \<Rightarrow> error option \<times> Plan"
  GenerateCertificates :: "call list \<Rightarrow> Plan \<Rightarrow> bool \<Rightarrow> error option \<times> Plan"
  GenerateKubeconfig :: "call list \<Rightarrow> Plan \<Rightarrow> error option"
  Install :: "call list \<Rightarrow> Plan \<Rightarrow> bool \<Rightarrow> error option \<times> Plan"
  RunSmokeTest :: "call list \<Rightarrow> Plan \<Rightarrow> error option \<times> Plan"
  GetErr :: "call list \<Rightarrow> string \<Rightarrow> error option"
  PutErr :: "call list \<Rightarrow> string \<Rightarrow> Cluster \<Rightarrow> error option"
  DeleteErr :: "call list \<Rightarrow> string \<Rightarrow> error option"
  External :: "call list \<Rightarrow> (string \<rightharpoonup> Cluster) \<Rightarrow> (string \<rightharpoonup> Cluster)"

text \<open>The world outside the controller: the content of the store and the history.\<close>

record world =
  clusters :: "string \<rightharpoonup> Cluster"
  calls :: "call list"

definition called :: "call \<Rightarrow> world \<Rightarrow> world" where
  "called x w = w\<lparr>calls := calls w @ [x]\<rparr>"

text \<open>
  The fields of \<open>clusterController\<close> that are data; its logger, executor, provisioner
  factory and store are the environment.
\<close>

record clusterController =
  clusterName :: string
  clusterSpec :: ClusterSpec
  installPlan :: Plan

subsection \<open>The cluster store\<close>

text \<open>
  Modelled from the spec: \<open>store.ClusterStore\<close> is an interface whose implementation is
  missing from the source. It is a key-value store keyed by the cluster name with
  \<open>Get\<close>, \<open>Put\<close> and \<open>Delete\<close>, each of which may fail; a failed \<open>Put\<close> or \<open>Delete\<close>
  leaves the content as it was, \<open>Get\<close> of a name that is not on file is an error, and
  \<open>Get\<close> hands out a copy of the record on file.
\<close>

definition Get :: "env \<Rightarrow> world \<Rightarrow> string \<Rightarrow> (error + Cluster) \<times> world" where
  "Get e w name =
     (let s = External e (calls w) (clusters w);
          w' = called (Ev_Get name) (w\<lparr>clusters := s\<rparr>)
      in case GetErr e (calls w) name of
           Some err \<Rightarrow> (Inl err, w')
         | None \<Rightarrow>
             (case s name of
                None \<Rightarrow> (Inl ''cluster not found'', w')
              | Some cluster \<Rightarrow> (Inr cluster, w')))"

definition Put :: "env \<Rightarrow> world \<Rightarrow> string \<Rightarrow> Cluster \<Rightarrow> error option \<times> world" where
  "Put e w name cluster =
     (case PutErr e (calls w) name cluster of
        Some err \<Rightarrow> (Some err, called (Ev_Put name cluster) w)
      | None \<Rightarrow>
          (None, called (Ev_Put name cluster) (w\<lparr>clusters := (clusters w)(name \<mapsto> cluster)\<rparr>)))"

definition Delete :: "env \<Rightarrow> world \<Rightarrow> string \<Rightarrow> error option \<times> world" where
  "Delete e w name =
     (case DeleteErr e (calls w) name of
        Some err \<Rightarrow> (Some err, called (Ev_Delete name) w)
      | None \<Rightarrow> (None, called (Ev_Delete name) (w\<lparr>clusters := (clusters w)(name := None)\<rparr>)))"

subsection \<open>Assignments to the status\<close>

text \<open>
  \<open>cluster.Status.CurrentState = s\<close>, \<open>cluster.Status.WaitingForManualRetry = true\<close> and
  \<open>cluster.Status.ClusterIP = a\<close> on the function's own copy of the record.
\<close>

definition setCurrentState :: "string \<Rightarrow> Cluster \<Rightarrow> Cluster" where
  "setCurrentState s cluster = cluster\<lparr>Status := (Status cluster)\<lparr>CurrentState := s\<rparr>\<rparr>"

definition setWaitingForManualRetry :: "Cluster \<Rightarrow> Cluster" where
  "setWaitingForManualRetry cluster =
     cluster\<lparr>Status := (Status cluster)\<lparr>WaitingForManualRetry := True\<rparr>\<rparr>"

definition setClusterIP :: "string \<Rightarrow> Cluster \<Rightarrow> Cluster" where
  "setClusterIP a cluster = cluster\<lparr>Status := (Status cluster)\<lparr>ClusterIP := a\<rparr>\<rparr>"

subsection \<open>buildPlan\<close>

definition buildPlan :: "env \<Rightarrow> string \<Rightarrow> ClusterSpec \<Rightarrow> string \<Rightarrow> error + Plan" where
  "buildPlan e name spec existingPassword =
     (let planTemplate =
            \<lparr>AdminPassword = existingPassword,
             EtcdNodes = EtcdCount spec,
             MasterNodes = MasterCount spec,
             WorkerNodes = WorkerCount spec,
             IngressNodes = IngressCount spec\<rparr>
      in case WritePlanTemplate e planTemplate of
           Inl err \<Rightarrow> Inl (''could not decode request body: '' @ err)
         | Inr planner \<Rightarrow>
             (case Read e planner of
                Inl err \<Rightarrow> Inl (''could not read plan: '' @ err)
              | Inr p0 \<Rightarrow>
                  (let p1 = p0\<lparr>Plan_Cluster := (Plan_Cluster p0)\<lparr>Cluster_Name := name\<rparr>\<rparr>;
                       p2 = p1\<lparr>Plan_Provisioner :=
                                 \<lparr>Provisioner_Provider = Provider (Provisioner spec),
                                  Provisioner_AWSOptions = None\<rparr>\<rparr>
                   in if Provider (Provisioner spec) = ''aws'' then
                        Inr (p2\<lparr>Plan_Provisioner :=
                                  (Plan_Provisioner p2)
                                    \<lparr>Provisioner_AWSOptions := Some AWSProvisionerOptions_zero\<rparr>\<rparr>)
                      else if Provider (Provisioner spec) = ''azure'' then
                        Inr (p2\<lparr>Plan_AddOns :=
                                  (Plan_AddOns p2)
                                    \<lparr>AddOns_CNI :=
                                       (AddOns_CNI (Plan_AddOns p2))\<lparr>CNI_Provider := ''weave''\<rparr>\<rparr>\<rparr>)
                      else Inr p2)))"

subsection \<open>The actions\<close>

definition plan ::
  "env \<Rightarrow> clusterController \<Rightarrow> world \<Rightarrow> Cluster \<Rightarrow> Cluster \<times> clusterController \<times> world"
where
  "plan e c w cluster =
     (case buildPlan e (clusterName c) (Spec cluster)
             (Cluster_AdminPassword (Plan_Cluster (installPlan c))) of
        Inl err \<Rightarrow>
          (setWaitingForManualRetry (setCurrentState planningFailed cluster), c, w)
      | Inr p \<Rightarrow> (setCurrentState planned cluster, c\<lparr>installPlan := p\<rparr>, w))"

definition provision ::
  "env \<Rightarrow> clusterController \<Rightarrow> world \<Rightarrow> Cluster \<Rightarrow> Cluster \<times> clusterController \<times> world"
where
  "provision e c w cluster =
     (let w1 = called (Ev_Provision cluster (installPlan c)) w
      in case Provision e (calls w) cluster (installPlan c) of
           Inl err \<Rightarrow>
             (setWaitingForManualRetry (setCurrentState provisionFailed cluster), c, w1)
         | Inr updatedPlan \<Rightarrow>
             (setClusterIP (LoadBalancedFQDN (Plan_Master updatedPlan))
                (setCurrentState provisioned cluster),
              c\<lparr>installPlan := updatedPlan\<rparr>, w1))"

definition destroy ::
  "env \<Rightarrow> clusterController \<Rightarrow> world \<Rightarrow> Cluster \<Rightarrow> Cluster \<times> clusterController \<times> world"
where
  "destroy e c w cluster =
     (let w1 = called (Ev_Destroy cluster (clusterName c)) w
      in case Destroy e (calls w) cluster (clusterName c) of
           Some err \<Rightarrow>
             (setWaitingForManualRetry (setCurrentState destroyFailed cluster), c, w1)
         | None \<Rightarrow> (setCurrentState destroyed cluster, c, w1))"

text \<open>
  \<open>install\<close> works on its own copy \<open>plan'\<close> of \<open>c.installPlan\<close>: what the executor changes
  in it reaches the later steps and is dropped at the end.
\<close>

definition install ::
  "env \<Rightarrow> clusterController \<Rightarrow> world \<Rightarrow> Cluster \<Rightarrow> Cluster \<times> clusterController \<times> world"
where
  "install e c w cluster =
     (let plan' = installPlan c;
          w1 = called (Ev_RunPreFlightCheck plan') w
      in case RunPreFlightCheck e (calls w) plan' of
           (Some err, plan1) \<Rightarrow>
             (setWaitingForManualRetry (setCurrentState installFailed cluster), c, w1)
         | (None, plan1) \<Rightarrow>
      (let w2 = called (Ev_GenerateCertificates plan1 False) w1
       in case GenerateCertificates e (calls w1) plan1 False of
            (Some err, plan2) \<Rightarrow>
              (setWaitingForManualRetry (setCurrentState installFailed cluster), c, w2)
          | (None, plan2) \<Rightarrow>
      (let w3 = called (Ev_GenerateKubeconfig plan2) w2
       in case GenerateKubeconfig e (calls w2) plan2 of
            Some err \<Rightarrow>
              (setWaitingForManualRetry (setCurrentState installFailed cluster), c, w3)
          | None \<Rightarrow>
      (let w4 = called (Ev_Install plan2 True) w3
       in case Install e (calls w3) plan2 True of
            (Some err, plan4) \<Rightarrow>
              (setWaitingForManualRetry (setCurrentState installFailed cluster), c, w4)
          | (None, plan4) \<Rightarrow>
      (if \<not> NetworkConfigured e plan4 then (setCurrentState installed cluster, c, w4)
       else
         (let w5 = called (Ev_RunSmokeTest plan4) w4
          in case RunSmokeTest e (calls w4) plan4 of
               (Some err, plan5) \<Rightarrow> (setCurrentState installFailed cluster, c, w5)
             | (None, plan5) \<Rightarrow> (setCurrentState installed cluster, c, w5)))))))"

subsection \<open>transition\<close>

definition transition ::
  "env \<Rightarrow> clusterController \<Rightarrow> world \<Rightarrow> Cluster \<Rightarrow> Cluster \<times> clusterController \<times> world"
where
  "transition e c w cluster =
     (if DesiredState (Spec cluster) = CurrentState (Status cluster) then (cluster, c, w)
      else if CurrentState (Status cluster) = [] then (setCurrentState planning cluster, c, w)
      else if CurrentState (Status cluster) = planning then plan e c w cluster
      else if CurrentState (Status cluster) = planned then
        (setCurrentState provisioning cluster, c, w)
      else if CurrentState (Status cluster) = planningFailed then
        (if DesiredState (Spec cluster) = destroyed then
           (setCurrentState destroying cluster, c, w)
         else (setCurrentState planning cluster, c, w))
      else if CurrentState (Status cluster) = provisioning then provision e c w cluster
      else if CurrentState (Status cluster) = provisioned then
        (if DesiredState (Spec cluster) = destroyed then
           (setCurrentState destroying cluster, c, w)
         else (setCurrentState installing cluster, c, w))
      else if CurrentState (Status cluster) = provisionFailed then
        (if DesiredState (Spec cluster) = destroyed then
           (setCurrentState destroying cluster, c, w)
         else (setCurrentState provisioning cluster, c, w))
      else if CurrentState (Status cluster) = destroying then destroy e c w cluster
      else if CurrentState (Status cluster) = installing then install e c w cluster
      else if CurrentState (Status cluster) = installFailed then
        (if DesiredState (Spec cluster) = destroyed then
           (setCurrentState destroying cluster, c, w)
         else (setCurrentState installing cluster, c, w))
      else if CurrentState (Status cluster) = installed then
        (if DesiredState (Spec cluster) = destroyed then
           (setCurrentState destroying cluster, c, w)
         else (setWaitingForManualRetry cluster, c, w))
      else (setWaitingForManualRetry cluster, c, w))"

subsection \<open>The reconciliation loop\<close>

text \<open>
  One pass of the body of the \<open>for\<close> loop of \<open>run\<close>, for one notification. The first
  component of the result is \<open>True\<close> when the body returns from \<open>run\<close> (the cluster was
  destroyed and deleted) and \<open>False\<close> when the loop waits for the next notification.
\<close>

definition cycle ::
  "env \<Rightarrow> clusterController \<Rightarrow> world \<Rightarrow> bool \<times> clusterController \<times> world"
where
  "cycle e c w =
     (case Get e w (clusterName c) of
        (Inl err, w1) \<Rightarrow> (False, c, w1)
      | (Inr loaded, w1) \<Rightarrow>
      (let cluster =
             (if Spec loaded \<noteq> clusterSpec c \<and> DesiredState (Spec loaded) \<noteq> destroyed
              then setCurrentState planning loaded else loaded)
       in if CurrentState (Status cluster) = DesiredState (Spec cluster)
             \<or> WaitingForManualRetry (Status cluster)
          then (False, c, w1)
          else
      (case transition e c (called (Ev_Transition cluster) w1) cluster of
         (transitionedCluster, c2, w2) \<Rightarrow>
      (case Get e w2 (clusterName c2) of
         (Inl err, w3) \<Rightarrow> (False, c2, w3)
       | (Inr latest, w3) \<Rightarrow>
      (let merged = latest\<lparr>Status := Status transitionedCluster\<rparr>
       in case Put e w3 (clusterName c2) merged of
            (Some err, w4) \<Rightarrow> (False, c2, w4)
          | (None, w4) \<Rightarrow>
      (let c3 = c2\<lparr>clusterSpec := Spec merged\<rparr>
       in if CurrentState (Status merged) = destroyed then
            (case Delete e w4 (clusterName c3) of
               (Some err, w5) \<Rightarrow> (False, c3, w5)
             | (None, w5) \<Rightarrow> (True, c3, w5))
          else (False, c3, w4)))))))"

text \<open>
  \<open>run\<close> on a channel that delivers \<open>n\<close> notifications and is then closed. The first
  component of the result is \<open>True\<close> when the controller stopped because the cluster was
  destroyed, \<open>False\<close> when the channel was closed.
\<close>

fun run :: "env \<Rightarrow> nat \<Rightarrow> clusterController \<Rightarrow> world \<Rightarrow> bool \<times> clusterController \<times> world"
where
  "run e 0 c w = (False, c, w)"
| "run e (Suc n) c w =
     (case cycle e c w of
        (True, c', w') \<Rightarrow> (True, c', w')
      | (False, c', w') \<Rightarrow> run e n c' w')"

subsection \<open>Notions used to state the properties\<close>

text \<open>
  The loop leaves a record alone when it is idle (the current state is the desired one)
  or stalled (it waits for a manual retry): the guard of \<open>run\<close> before \<open>transition\<close>.
\<close>

definition settled :: "Cluster \<Rightarrow> bool" where
  "settled cluster =
     (CurrentState (Status cluster) = DesiredState (Spec cluster)
      \<or> WaitingForManualRetry (Status cluster))"





text \<open>The record on file for a cluster waits for a manual retry.\<close>

definition waiting_on_file :: "string \<Rightarrow> (string \<rightharpoonup> Cluster) \<Rightarrow> bool" where
  "waiting_on_file name s =
     (case s name of None \<Rightarrow> False | Some cluster \<Rightarrow> WaitingForManualRetry (Status cluster))"

text \<open>The record on file for a cluster is destroyed, as desired.\<close>

definition destroyed_on_file :: "string \<Rightarrow> (string \<rightharpoonup> Cluster) \<Rightarrow> bool" where
  "destroyed_on_file name s =
     (case s name of
        None \<Rightarrow> False
      | Some cluster \<Rightarrow>
          CurrentState (Status cluster) = destroyed \<and> DesiredState (Spec cluster) = destroyed)"

text \<open>
  Modelled from the spec: \<open>install.WritePlanTemplate\<close> and \<open>BytesPlanner.Read\<close> are missing
  from the source. The spec says of the template that it reuses any previously known
  admin credential: the plan that is read back carries the password of the template.
\<close>

definition template_keeps_password :: "env \<Rightarrow> bool" where
  "template_keeps_password e =
     (\<forall>t planner p. WritePlanTemplate e t = Inr planner \<and> Read e planner = Inr p \<longrightarrow>
        Cluster_AdminPassword (Plan_Cluster p) = AdminPassword t)"

subsection \<open>The transition table\<close>





subsection \<open>Test collaborators\<close>

text \<open>
  A plan, a spec, a record, a controller and a world to run the model on, and a family
  of collaborators: \<open>env0 k net\<close> fails at the step numbered \<open>k\<close> (1 the template,
  2 provisioning, 3 destruction, 4 the preflight check, 5 the certificates, 6 the
  kubeconfig, 7 the installation, 8 the smoke test, 9 the deletion from the store) and
  succeeds everywhere else; \<open>net\<close> says whether the plan configures a network.
\<close>

definition plan0 :: Plan where
  "plan0 =
     \<lparr>Plan_Cluster = \<lparr>Cluster_Name = [], Cluster_AdminPassword = ''secret''\<rparr>,
      Plan_Provisioner = \<lparr>Provisioner_Provider = [], Provisioner_AWSOptions = None\<rparr>,
      Plan_AddOns = \<lparr>AddOns_CNI = \<lparr>CNI_Provider = ''calico''\<rparr>\<rparr>,
      Plan_Master = \<lparr>LoadBalancedFQDN = ''lb.example''\<rparr>\<rparr>"

definition spec0 :: "string \<Rightarrow> string \<Rightarrow> ClusterSpec" where
  "spec0 provider d =
     \<lparr>DesiredState = d, EtcdCount = 1, MasterCount = 1, WorkerCount = 2, IngressCount = 0,
      Provisioner = \<lparr>Provider = provider, Options = []\<rparr>\<rparr>"

definition cluster0 :: "string \<Rightarrow> string \<Rightarrow> bool \<Rightarrow> Cluster" where
  "cluster0 s d waiting =
     \<lparr>Spec = spec0 ''aws'' d,
      Status = \<lparr>CurrentState = s, WaitingForManualRetry = waiting, ClusterIP = []\<rparr>\<rparr>"

definition ctl0 :: "string \<Rightarrow> clusterController" where
  "ctl0 d = \<lparr>clusterName = ''c1'', clusterSpec = spec0 ''aws'' d, installPlan = plan0\<rparr>"

definition world0 :: "Cluster \<Rightarrow> world" where
  "world0 cluster = \<lparr>clusters = [''c1'' \<mapsto> cluster], calls = []\<rparr>"

definition env0 :: "nat \<Rightarrow> bool \<Rightarrow> env" where
  "env0 k net =
     \<lparr>WritePlanTemplate = (\<lambda>t. if k = 1 then Inl ''template'' else Inr (AdminPassword t)),
      Read = (\<lambda>b. Inr (plan0\<lparr>Plan_Cluster := \<lparr>Cluster_Name = [], Cluster_AdminPassword = b\<rparr>\<rparr>)),
      NetworkConfigured = (\<lambda>p. net),
      Provision = (\<lambda>h cluster p. if k = 2 then Inl ''provision'' else Inr p),
      Destroy = (\<lambda>h cluster name. if k = 3 then Some ''destroy'' else None),
      RunPreFlightCheck = (\<lambda>h p. (if k = 4 then Some ''preflight'' else None, p)),
      GenerateCertificates = (\<lambda>h p b. (if k = 5 then Some ''certificates'' else None, p)),
      GenerateKubeconfig = (\<lambda>h p. if k = 6 then Some ''kubeconfig'' else None),
      Install = (\<lambda>h p b. (if k = 7 then Some ''install'' else None, p)),
      RunSmokeTest = (\<lambda>h p. (if k = 8 then Some ''smoke test'' else None, p)),
      GetErr = (\<lambda>h name. None),
      PutErr = (\<lambda>h name cluster. None),
      DeleteErr = (\<lambda>h name. if k = 9 then Some ''delete'' else None),
      External = (\<lambda>h s. s)\<rparr>"

text \<open>
  Collaborators that all succeed, with another party that adds a worker to the spec on
  file before every read of the store.
\<close>

definition env_editing :: env where
  "env_editing =
     (env0 0 True)
       \<lparr>External :=
          (\<lambda>h s. case s ''c1'' of
                    None \<Rightarrow> s
                  | Some cluster \<Rightarrow>
                      s(''c1'' \<mapsto>
                        cluster\<lparr>Spec := (Spec cluster)
                                   \<lparr>WorkerCount := WorkerCount (Spec cluster) + 1\<rparr>\<rparr>))\<rparr>"

section \<open>Properties\<close>

subsection \<open>The state constants are distinct\<close>

lemma states_distinct:
  "distinct [[], planning, planningFailed, planned, provisioning, provisionFailed,
     provisioned, installing, installFailed, installed, modifying, modifyFailed,
     destroying, destroyFailed, destroyed]"
  by (simp add: state_defs)

subsection \<open>C1: a failed destruction is not retried\<close>

text \<open>
  C1 says that \<open>transition\<close> takes a record whose current state is \<open>destroyFailed\<close> and
  whose desired state is \<open>destroyed\<close> to the current state \<open>destroying\<close>. The switch of
  \<open>transition\<close> has a case for \<open>planningFailed\<close>, \<open>provisionFailed\<close> and \<open>installFailed\<close>
  and none for \<open>destroyFailed\<close>, the state that \<open>destroy\<close> sets: the record falls to the
  default case, which leaves the current state at \<open>destroyFailed\<close> and sets
  \<open>WaitingForManualRetry\<close>. No action is performed and the controller is unchanged.
\<close>

theorem transition_destroyFailed_stalls:
  "transition e c w
     \<lparr>Spec = spec\<lparr>DesiredState := destroyed\<rparr>,
      Status = st\<lparr>CurrentState := destroyFailed\<rparr>\<rparr> =
   (\<lparr>Spec = spec\<lparr>DesiredState := destroyed\<rparr>,
     Status = st\<lparr>CurrentState := destroyFailed, WaitingForManualRetry := True\<rparr>\<rparr>, c, w)
   \<and> destroyFailed \<noteq> destroying"
  by (simp add: transition_def setWaitingForManualRetry_def state_defs)

subsection \<open>C5: no operation at the desired state\<close>

text \<open>
  C5: for every record whose desired state equals its current state, \<open>transition\<close>
  returns the record as it is; the controller is unchanged and the history of calls is
  unchanged, so no action was dispatched.
\<close>

theorem transition_noop:
  "DesiredState (Spec cluster) = CurrentState (Status cluster) \<Longrightarrow>
   transition e c w cluster = (cluster, c, w)"
  by (simp add: transition_def)

theorem transition_noop_witness:
  "DesiredState (Spec (cluster0 installed installed False))
     = CurrentState (Status (cluster0 installed installed False))
   \<and> transition (env0 0 True) (ctl0 installed) (world0 (cluster0 installed installed False))
       (cluster0 installed installed False)
     = (cluster0 installed installed False, ctl0 installed,
        world0 (cluster0 installed installed False))
   \<and> calls (snd (snd (transition (env0 0 True) (ctl0 installed)
        (world0 (cluster0 installed installed False)) (cluster0 installed installed False)))) = []"
proof -
  have h: "DesiredState (Spec (cluster0 installed installed False))
     = CurrentState (Status (cluster0 installed installed False))"
    by (simp add: cluster0_def spec0_def)
  from transition_noop [OF h] show ?thesis using h by (simp add: world0_def)
qed

subsection \<open>The actions behind the states, and the outcomes of the install pipeline\<close>

lemma transition_planning:
  "CurrentState (Status cluster) = planning \<Longrightarrow> DesiredState (Spec cluster) \<noteq> planning \<Longrightarrow>
   transition e c w cluster = plan e c w cluster"
  by (simp add: transition_def state_defs)

lemma transition_provisioning:
  "CurrentState (Status cluster) = provisioning \<Longrightarrow>
   DesiredState (Spec cluster) \<noteq> provisioning \<Longrightarrow>
   transition e c w cluster = provision e c w cluster"
  by (simp add: transition_def state_defs)

lemma transition_destroying:
  "CurrentState (Status cluster) = destroying \<Longrightarrow>
   DesiredState (Spec cluster) \<noteq> destroying \<Longrightarrow>
   transition e c w cluster = destroy e c w cluster"
  by (simp add: transition_def state_defs)

lemma transition_installing:
  "CurrentState (Status cluster) = installing \<Longrightarrow>
   DesiredState (Spec cluster) \<noteq> installing \<Longrightarrow>
   transition e c w cluster = install e c w cluster"
  by (simp add: transition_def state_defs)

text \<open>
  The pipeline of \<open>install\<close>, with the answers of the executor named: the answer of each
  step is taken at the history that the steps before it leave behind, on the plan they
  leave behind.
\<close>

lemma install_outcome:
  assumes "RunPreFlightCheck e (calls w) (installPlan c) = (r_pre, p_pre)"
    and "GenerateCertificates e (calls w @ [Ev_RunPreFlightCheck (installPlan c)]) p_pre False
           = (r_cert, p_cert)"
    and "GenerateKubeconfig e
           (calls w @ [Ev_RunPreFlightCheck (installPlan c), Ev_GenerateCertificates p_pre False])
           p_cert = r_kube"
    and "Install e
           (calls w @ [Ev_RunPreFlightCheck (installPlan c), Ev_GenerateCertificates p_pre False,
                       Ev_GenerateKubeconfig p_cert]) p_cert True = (r_inst, p_inst)"
    and "RunSmokeTest e
           (calls w @ [Ev_RunPreFlightCheck (installPlan c), Ev_GenerateCertificates p_pre False,
                       Ev_GenerateKubeconfig p_cert, Ev_Install p_cert True]) p_inst = (r_smoke, p_smoke)"
  shows "install e c w cluster =
     (if r_pre \<noteq> None then
        (setWaitingForManualRetry (setCurrentState installFailed cluster), c,
         w\<lparr>calls := calls w @ [Ev_RunPreFlightCheck (installPlan c)]\<rparr>)
      else if r_cert \<noteq> None then
        (setWaitingForManualRetry (setCurrentState installFailed cluster), c,
         w\<lparr>calls := calls w @ [Ev_RunPreFlightCheck (installPlan c),
                                 Ev_GenerateCertificates p_pre False]\<rparr>)
      else if r_kube \<noteq> None then
        (setWaitingForManualRetry (setCurrentState installFailed cluster), c,
         w\<lparr>calls := calls w @ [Ev_RunPreFlightCheck (installPlan c),
                                 Ev_GenerateCertificates p_pre False, Ev_GenerateKubeconfig p_cert]\<rparr>)
      else if r_inst \<noteq> None then
        (setWaitingForManualRetry (setCurrentState installFailed cluster), c,
         w\<lparr>calls := calls w @ [Ev_RunPreFlightCheck (installPlan c),
                                 Ev_GenerateCertificates p_pre False, Ev_GenerateKubeconfig p_cert,
                                 Ev_Install p_cert True]\<rparr>)
      else if \<not> NetworkConfigured e p_inst then
        (setCurrentState installed cluster, c,
         w\<lparr>calls := calls w @ [Ev_RunPreFlightCheck (installPlan c),
                                 Ev_GenerateCertificates p_pre False, Ev_GenerateKubeconfig p_cert,
                                 Ev_Install p_cert True]\<rparr>)
      else if r_smoke \<noteq> None then
        (setCurrentState installFailed cluster, c,
         w\<lparr>calls := calls w @ [Ev_RunPreFlightCheck (installPlan c),
                                 Ev_GenerateCertificates p_pre False, Ev_GenerateKubeconfig p_cert,
                                 Ev_Install p_cert True, Ev_RunSmokeTest p_inst]\<rparr>)
      else
        (setCurrentState installed cluster, c,
         w\<lparr>calls := calls w @ [Ev_RunPreFlightCheck (installPlan c),
                                 Ev_GenerateCertificates p_pre False, Ev_GenerateKubeconfig p_cert,
                                 Ev_Install p_cert True, Ev_RunSmokeTest p_inst]\<rparr>))"
  using assms
  by (auto simp add: install_def called_def Let_def split: option.splits)

lemmas test_defs = env0_def ctl0_def world0_def cluster0_def spec0_def plan0_def

subsection \<open>C2: the failure paths\<close>

text \<open>
  C2: every failure path of \<open>transition\<close> sets the current state to the failed state of
  its stage and sets \<open>WaitingForManualRetry\<close>: a failure of \<open>buildPlan\<close> in \<open>planning\<close>,
  of \<open>Provision\<close> in \<open>provisioning\<close>, of \<open>Destroy\<close> in \<open>destroying\<close>, and of the preflight
  check, the certificate generation, the kubeconfig generation or the installation in
  \<open>installing\<close>. The one exception is a failure of the smoke test, which sets the current
  state to \<open>installFailed\<close> and leaves \<open>WaitingForManualRetry\<close> as it was. The rest of
  the status is unchanged in every case.
\<close>

theorem failure_paths:
  fixes cluster :: Cluster and e :: env and c :: clusterController and w :: world
    and r_pre r_cert r_kube r_inst r_smoke :: "error option" and p_pre p_cert p_inst p_smoke :: Plan
  assumes ne: "DesiredState (Spec cluster) \<noteq> CurrentState (Status cluster)"
    and s1: "RunPreFlightCheck e (calls w) (installPlan c) = (r_pre, p_pre)"
    and s2: "GenerateCertificates e (calls w @ [Ev_RunPreFlightCheck (installPlan c)]) p_pre False
           = (r_cert, p_cert)"
    and s3: "GenerateKubeconfig e
           (calls w @ [Ev_RunPreFlightCheck (installPlan c), Ev_GenerateCertificates p_pre False])
           p_cert = r_kube"
    and s4: "Install e
           (calls w @ [Ev_RunPreFlightCheck (installPlan c), Ev_GenerateCertificates p_pre False,
                       Ev_GenerateKubeconfig p_cert]) p_cert True = (r_inst, p_inst)"
    and s5: "RunSmokeTest e
           (calls w @ [Ev_RunPreFlightCheck (installPlan c), Ev_GenerateCertificates p_pre False,
                       Ev_GenerateKubeconfig p_cert, Ev_Install p_cert True]) p_inst = (r_smoke, p_smoke)"
  shows
    "(CurrentState (Status cluster) = planning \<and>
      isl (buildPlan e (clusterName c) (Spec cluster)
             (Cluster_AdminPassword (Plan_Cluster (installPlan c)))) \<longrightarrow>
        Status (fst (transition e c w cluster)) =
          (Status cluster)\<lparr>CurrentState := planningFailed, WaitingForManualRetry := True\<rparr>)
     \<and> (CurrentState (Status cluster) = provisioning \<and>
        isl (Provision e (calls w) cluster (installPlan c)) \<longrightarrow>
        Status (fst (transition e c w cluster)) =
          (Status cluster)\<lparr>CurrentState := provisionFailed, WaitingForManualRetry := True\<rparr>)
     \<and> (CurrentState (Status cluster) = destroying \<and>
        Destroy e (calls w) cluster (clusterName c) \<noteq> None \<longrightarrow>
        Status (fst (transition e c w cluster)) =
          (Status cluster)\<lparr>CurrentState := destroyFailed, WaitingForManualRetry := True\<rparr>)
     \<and> (CurrentState (Status cluster) = installing \<and>
        (r_pre \<noteq> None \<or> r_cert \<noteq> None \<or> r_kube \<noteq> None \<or> r_inst \<noteq> None) \<longrightarrow>
        Status (fst (transition e c w cluster)) =
          (Status cluster)\<lparr>CurrentState := installFailed, WaitingForManualRetry := True\<rparr>)
     \<and> (CurrentState (Status cluster) = installing \<and>
        r_pre = None \<and> r_cert = None \<and> r_kube = None \<and> r_inst = None \<and> NetworkConfigured e p_inst \<and>
        r_smoke \<noteq> None \<longrightarrow>
        Status (fst (transition e c w cluster)) =
          (Status cluster)\<lparr>CurrentState := installFailed\<rparr>)"
proof (intro conjI impI)
  assume a: "CurrentState (Status cluster) = planning \<and>
      isl (buildPlan e (clusterName c) (Spec cluster)
             (Cluster_AdminPassword (Plan_Cluster (installPlan c))))"
  with ne have "transition e c w cluster = plan e c w cluster"
    by (simp add: transition_planning)
  with a show "Status (fst (transition e c w cluster)) =
          (Status cluster)\<lparr>CurrentState := planningFailed, WaitingForManualRetry := True\<rparr>"
    by (auto simp add: plan_def setCurrentState_def setWaitingForManualRetry_def
        split: sum.splits)
next
  assume a: "CurrentState (Status cluster) = provisioning \<and>
        isl (Provision e (calls w) cluster (installPlan c))"
  with ne have "transition e c w cluster = provision e c w cluster"
    by (simp add: transition_provisioning)
  with a show "Status (fst (transition e c w cluster)) =
          (Status cluster)\<lparr>CurrentState := provisionFailed, WaitingForManualRetry := True\<rparr>"
    by (auto simp add: provision_def Let_def setCurrentState_def setWaitingForManualRetry_def
        split: sum.splits)
next
  assume a: "CurrentState (Status cluster) = destroying \<and>
        Destroy e (calls w) cluster (clusterName c) \<noteq> None"
  with ne have "transition e c w cluster = destroy e c w cluster"
    by (simp add: transition_destroying)
  with a show "Status (fst (transition e c w cluster)) =
          (Status cluster)\<lparr>CurrentState := destroyFailed, WaitingForManualRetry := True\<rparr>"
    by (auto simp add: destroy_def Let_def setCurrentState_def setWaitingForManualRetry_def
        split: option.splits)
next
  assume a: "CurrentState (Status cluster) = installing \<and>
        (r_pre \<noteq> None \<or> r_cert \<noteq> None \<or> r_kube \<noteq> None \<or> r_inst \<noteq> None)"
  with ne have "transition e c w cluster = install e c w cluster"
    by (simp add: transition_installing)
  with a show "Status (fst (transition e c w cluster)) =
          (Status cluster)\<lparr>CurrentState := installFailed, WaitingForManualRetry := True\<rparr>"
    by (auto simp add: install_outcome [OF s1 s2 s3 s4 s5] setCurrentState_def
        setWaitingForManualRetry_def)
next
  assume a: "CurrentState (Status cluster) = installing \<and>
        r_pre = None \<and> r_cert = None \<and> r_kube = None \<and> r_inst = None \<and> NetworkConfigured e p_inst \<and>
        r_smoke \<noteq> None"
  with ne have "transition e c w cluster = install e c w cluster"
    by (simp add: transition_installing)
  with a show "Status (fst (transition e c w cluster)) =
          (Status cluster)\<lparr>CurrentState := installFailed\<rparr>"
    by (auto simp add: install_outcome [OF s1 s2 s3 s4 s5] setCurrentState_def)
qed

theorem failure_paths_witness:
  "Status (fst (transition (env0 1 True) (ctl0 installed)
       (world0 (cluster0 planning installed False)) (cluster0 planning installed False)))
     = \<lparr>CurrentState = planningFailed, WaitingForManualRetry = True, ClusterIP = []\<rparr>
   \<and> Status (fst (transition (env0 2 True) (ctl0 installed)
       (world0 (cluster0 provisioning installed False))
       (cluster0 provisioning installed False)))
     = \<lparr>CurrentState = provisionFailed, WaitingForManualRetry = True, ClusterIP = []\<rparr>
   \<and> Status (fst (transition (env0 3 True) (ctl0 destroyed)
       (world0 (cluster0 destroying destroyed False))
       (cluster0 destroying destroyed False)))
     = \<lparr>CurrentState = destroyFailed, WaitingForManualRetry = True, ClusterIP = []\<rparr>
   \<and> Status (fst (transition (env0 7 True) (ctl0 installed)
       (world0 (cluster0 installing installed False))
       (cluster0 installing installed False)))
     = \<lparr>CurrentState = installFailed, WaitingForManualRetry = True, ClusterIP = []\<rparr>
   \<and> Status (fst (transition (env0 8 True) (ctl0 installed)
       (world0 (cluster0 installing installed False))
       (cluster0 installing installed False)))
     = \<lparr>CurrentState = installFailed, WaitingForManualRetry = False, ClusterIP = []\<rparr>"
proof (intro conjI)
  show "Status (fst (transition (env0 1 True) (ctl0 installed)
       (world0 (cluster0 planning installed False)) (cluster0 planning installed False)))
     = \<lparr>CurrentState = planningFailed, WaitingForManualRetry = True, ClusterIP = []\<rparr>"
    using failure_paths [where cluster = "cluster0 planning installed False" and e = "env0 1 True" and c = "ctl0 installed" and w = "world0 (cluster0 planning installed False)" and r_pre = None and p_pre = plan0 and r_cert = None and p_cert = plan0 and r_kube = None and r_inst = None and p_inst = plan0 and r_smoke = None and p_smoke = plan0]
    by (simp add: test_defs buildPlan_def state_defs)
  show "Status (fst (transition (env0 2 True) (ctl0 installed)
       (world0 (cluster0 provisioning installed False))
       (cluster0 provisioning installed False)))
     = \<lparr>CurrentState = provisionFailed, WaitingForManualRetry = True, ClusterIP = []\<rparr>"
    using failure_paths [where cluster = "cluster0 provisioning installed False" and e = "env0 2 True" and c = "ctl0 installed" and w = "world0 (cluster0 provisioning installed False)" and r_pre = None and p_pre = plan0 and r_cert = None and p_cert = plan0 and r_kube = None and r_inst = None and p_inst = plan0 and r_smoke = None and p_smoke = plan0]
    by (simp add: test_defs state_defs)
  show "Status (fst (transition (env0 3 True) (ctl0 destroyed)
       (world0 (cluster0 destroying destroyed False))
       (cluster0 destroying destroyed False)))
     = \<lparr>CurrentState = destroyFailed, WaitingForManualRetry = True, ClusterIP = []\<rparr>"
    using failure_paths [where cluster = "cluster0 destroying destroyed False" and e = "env0 3 True" and c = "ctl0 destroyed" and w = "world0 (cluster0 destroying destroyed False)" and r_pre = None and p_pre = plan0 and r_cert = None and p_cert = plan0 and r_kube = None and r_inst = None and p_inst = plan0 and r_smoke = None and p_smoke = plan0]
    by (simp add: test_defs state_defs)
  show "Status (fst (transition (env0 7 True) (ctl0 installed)
       (world0 (cluster0 installing installed False))
       (cluster0 installing installed False)))
     = \<lparr>CurrentState = installFailed, WaitingForManualRetry = True, ClusterIP = []\<rparr>"
    using failure_paths [where cluster = "cluster0 installing installed False" and e = "env0 7 True" and c = "ctl0 installed" and w = "world0 (cluster0 installing installed False)" and r_pre = None and p_pre = plan0 and r_cert = None and p_cert = plan0 and r_kube = None and r_inst = "Some ''install''" and p_inst = plan0 and r_smoke = None and p_smoke = plan0]
    by (simp add: test_defs state_defs)
  show "Status (fst (transition (env0 8 True) (ctl0 installed)
       (world0 (cluster0 installing installed False))
       (cluster0 installing installed False)))
     = \<lparr>CurrentState = installFailed, WaitingForManualRetry = False, ClusterIP = []\<rparr>"
    using failure_paths [where cluster = "cluster0 installing installed False" and e = "env0 8 True" and c = "ctl0 installed" and w = "world0 (cluster0 installing installed False)" and r_pre = None and p_pre = plan0 and r_cert = None and p_cert = plan0 and r_kube = None and r_inst = None and p_inst = plan0 and r_smoke = "Some ''smoke test''" and p_smoke = plan0]
    by (simp add: test_defs state_defs)
qed

subsection \<open>C6: the install pipeline\<close>

text \<open>
  C6: in the state \<open>installing\<close> the calls that \<open>transition\<close> adds to the history are an
  initial segment of: preflight check, certificate generation, kubeconfig generation,
  installation, smoke test, in this order. The segment ends at the first step that
  fails; the smoke test is run if and only if the four steps before it succeeded and the
  plan configures a network. The current state becomes \<open>installed\<close> if every step that
  was run succeeded and \<open>installFailed\<close> otherwise.
\<close>

theorem install_pipeline:
  fixes cluster :: Cluster and e :: env and c :: clusterController and w :: world
    and r_pre r_cert r_kube r_inst r_smoke :: "error option"
    and p_pre p_cert p_inst p_smoke :: Plan
  assumes cur: "CurrentState (Status cluster) = installing"
    and des: "DesiredState (Spec cluster) \<noteq> installing"
    and s1: "RunPreFlightCheck e (calls w) (installPlan c) = (r_pre, p_pre)"
    and s2: "GenerateCertificates e (calls w @ [Ev_RunPreFlightCheck (installPlan c)]) p_pre False
           = (r_cert, p_cert)"
    and s3: "GenerateKubeconfig e
           (calls w @ [Ev_RunPreFlightCheck (installPlan c), Ev_GenerateCertificates p_pre False])
           p_cert = r_kube"
    and s4: "Install e
           (calls w @ [Ev_RunPreFlightCheck (installPlan c), Ev_GenerateCertificates p_pre False,
                       Ev_GenerateKubeconfig p_cert]) p_cert True = (r_inst, p_inst)"
    and s5: "RunSmokeTest e
           (calls w @ [Ev_RunPreFlightCheck (installPlan c), Ev_GenerateCertificates p_pre False,
                       Ev_GenerateKubeconfig p_cert, Ev_Install p_cert True]) p_inst
           = (r_smoke, p_smoke)"
  shows
    "calls (snd (snd (transition e c w cluster))) =
       calls w @
       (if r_pre \<noteq> None then [Ev_RunPreFlightCheck (installPlan c)]
        else if r_cert \<noteq> None then
          [Ev_RunPreFlightCheck (installPlan c), Ev_GenerateCertificates p_pre False]
        else if r_kube \<noteq> None then
          [Ev_RunPreFlightCheck (installPlan c), Ev_GenerateCertificates p_pre False,
           Ev_GenerateKubeconfig p_cert]
        else if r_inst \<noteq> None \<or> \<not> NetworkConfigured e p_inst then
          [Ev_RunPreFlightCheck (installPlan c), Ev_GenerateCertificates p_pre False,
           Ev_GenerateKubeconfig p_cert, Ev_Install p_cert True]
        else
          [Ev_RunPreFlightCheck (installPlan c), Ev_GenerateCertificates p_pre False,
           Ev_GenerateKubeconfig p_cert, Ev_Install p_cert True, Ev_RunSmokeTest p_inst])
     \<and> CurrentState (Status (fst (transition e c w cluster))) =
       (if r_pre = None \<and> r_cert = None \<and> r_kube = None \<and> r_inst = None
           \<and> (NetworkConfigured e p_inst \<longrightarrow> r_smoke = None)
        then installed else installFailed)
     \<and> ((\<exists>p. Ev_RunSmokeTest p
              \<in> set (drop (length (calls w)) (calls (snd (snd (transition e c w cluster))))))
        \<longleftrightarrow> r_pre = None \<and> r_cert = None \<and> r_kube = None \<and> r_inst = None
            \<and> NetworkConfigured e p_inst)"
proof -
  have t: "transition e c w cluster = install e c w cluster"
    using cur des by (simp add: transition_installing)
  show ?thesis
    unfolding t install_outcome [OF s1 s2 s3 s4 s5]
    by (simp add: setCurrentState_def setWaitingForManualRetry_def)
qed

theorem install_pipeline_witness:
  "calls (snd (snd (transition (env0 0 True) (ctl0 installed)
       (world0 (cluster0 installing installed False))
       (cluster0 installing installed False)))) =
     [Ev_RunPreFlightCheck plan0, Ev_GenerateCertificates plan0 False,
      Ev_GenerateKubeconfig plan0, Ev_Install plan0 True, Ev_RunSmokeTest plan0]
   \<and> CurrentState (Status (fst (transition (env0 0 True) (ctl0 installed)
       (world0 (cluster0 installing installed False))
       (cluster0 installing installed False)))) = installed
   \<and> calls (snd (snd (transition (env0 0 False) (ctl0 installed)
       (world0 (cluster0 installing installed False))
       (cluster0 installing installed False)))) =
     [Ev_RunPreFlightCheck plan0, Ev_GenerateCertificates plan0 False,
      Ev_GenerateKubeconfig plan0, Ev_Install plan0 True]
   \<and> CurrentState (Status (fst (transition (env0 0 False) (ctl0 installed)
       (world0 (cluster0 installing installed False))
       (cluster0 installing installed False)))) = installed
   \<and> calls (snd (snd (transition (env0 6 True) (ctl0 installed)
       (world0 (cluster0 installing installed False))
       (cluster0 installing installed False)))) =
     [Ev_RunPreFlightCheck plan0, Ev_GenerateCertificates plan0 False,
      Ev_GenerateKubeconfig plan0]
   \<and> CurrentState (Status (fst (transition (env0 6 True) (ctl0 installed)
       (world0 (cluster0 installing installed False))
       (cluster0 installing installed False)))) = installFailed"
proof -
  have a: "calls (snd (snd (transition (env0 0 True) (ctl0 installed)
       (world0 (cluster0 installing installed False))
       (cluster0 installing installed False)))) =
     [Ev_RunPreFlightCheck plan0, Ev_GenerateCertificates plan0 False,
      Ev_GenerateKubeconfig plan0, Ev_Install plan0 True, Ev_RunSmokeTest plan0]
   \<and> CurrentState (Status (fst (transition (env0 0 True) (ctl0 installed)
       (world0 (cluster0 installing installed False))
       (cluster0 installing installed False)))) = installed"
    using install_pipeline [where cluster = "cluster0 installing installed False"
        and e = "env0 0 True" and c = "ctl0 installed"
        and w = "world0 (cluster0 installing installed False)"
        and r_pre = None and p_pre = plan0 and r_cert = None and p_cert = plan0
        and r_kube = None and r_inst = None and p_inst = plan0 and r_smoke = None
        and p_smoke = plan0]
    by (simp add: test_defs state_defs)
  have b: "calls (snd (snd (transition (env0 0 False) (ctl0 installed)
       (world0 (cluster0 installing installed False))
       (cluster0 installing installed False)))) =
     [Ev_RunPreFlightCheck plan0, Ev_GenerateCertificates plan0 False,
      Ev_GenerateKubeconfig plan0, Ev_Install plan0 True]
   \<and> CurrentState (Status (fst (transition (env0 0 False) (ctl0 installed)
       (world0 (cluster0 installing installed False))
       (cluster0 installing installed False)))) = installed"
    using install_pipeline [where cluster = "cluster0 installing installed False"
        and e = "env0 0 False" and c = "ctl0 installed"
        and w = "world0 (cluster0 installing installed False)"
        and r_pre = None and p_pre = plan0 and r_cert = None and p_cert = plan0
        and r_kube = None and r_inst = None and p_inst = plan0 and r_smoke = None
        and p_smoke = plan0]
    by (simp add: test_defs state_defs)
  have d: "calls (snd (snd (transition (env0 6 True) (ctl0 installed)
       (world0 (cluster0 installing installed False))
       (cluster0 installing installed False)))) =
     [Ev_RunPreFlightCheck plan0, Ev_GenerateCertificates plan0 False,
      Ev_GenerateKubeconfig plan0]
   \<and> CurrentState (Status (fst (transition (env0 6 True) (ctl0 installed)
       (world0 (cluster0 installing installed False))
       (cluster0 installing installed False)))) = installFailed"
    using install_pipeline [where cluster = "cluster0 installing installed False"
        and e = "env0 6 True" and c = "ctl0 installed"
        and w = "world0 (cluster0 installing installed False)"
        and r_pre = None and p_pre = plan0 and r_cert = None and p_cert = plan0
        and r_kube = "Some ''kubeconfig''" and r_inst = None and p_inst = plan0
        and r_smoke = None and p_smoke = plan0]
    by (simp add: test_defs state_defs)
  from a b d show ?thesis by simp
qed

subsection \<open>C10: the flags passed to the executor\<close>

text \<open>
  C10: for every record, controller (hence every plan) and history, each call of the
  executor's \<open>Install\<close> that \<open>install\<close> makes carries the flag \<open>True\<close> and each call of
  \<open>GenerateCertificates\<close> carries the flag \<open>False\<close>.
\<close>

theorem install_flags:
  "(\<forall>p b. Ev_Install p b
            \<in> set (drop (length (calls w)) (calls (snd (snd (install e c w cluster)))))
          \<longrightarrow> b)
   \<and> (\<forall>p b. Ev_GenerateCertificates p b
            \<in> set (drop (length (calls w)) (calls (snd (snd (install e c w cluster)))))
          \<longrightarrow> \<not> b)"
proof -
  obtain r_pre p_pre where s1: "RunPreFlightCheck e (calls w) (installPlan c) = (r_pre, p_pre)"
    by fastforce
  obtain r_cert p_cert where
    s2: "GenerateCertificates e (calls w @ [Ev_RunPreFlightCheck (installPlan c)]) p_pre False
           = (r_cert, p_cert)"
    by fastforce
  obtain r_kube where s3: "GenerateKubeconfig e
           (calls w @ [Ev_RunPreFlightCheck (installPlan c), Ev_GenerateCertificates p_pre False])
           p_cert = r_kube"
    by simp
  obtain r_inst p_inst where s4: "Install e
           (calls w @ [Ev_RunPreFlightCheck (installPlan c), Ev_GenerateCertificates p_pre False,
                       Ev_GenerateKubeconfig p_cert]) p_cert True = (r_inst, p_inst)"
    by fastforce
  obtain r_smoke p_smoke where s5: "RunSmokeTest e
           (calls w @ [Ev_RunPreFlightCheck (installPlan c), Ev_GenerateCertificates p_pre False,
                       Ev_GenerateKubeconfig p_cert, Ev_Install p_cert True]) p_inst
           = (r_smoke, p_smoke)"
    by fastforce
  show ?thesis
    unfolding install_outcome [OF s1 s2 s3 s4 s5]
    by simp
qed

theorem install_flags_witness:
  "Ev_Install plan0 True
     \<in> set (calls (snd (snd (install (env0 0 True) (ctl0 installed)
          (world0 (cluster0 installing installed False))
          (cluster0 installing installed False)))))
   \<and> Ev_GenerateCertificates plan0 False
     \<in> set (calls (snd (snd (install (env0 0 True) (ctl0 installed)
          (world0 (cluster0 installing installed False))
          (cluster0 installing installed False)))))
   \<and> Ev_Install plan0 False
     \<notin> set (calls (snd (snd (install (env0 0 True) (ctl0 installed)
          (world0 (cluster0 installing installed False))
          (cluster0 installing installed False)))))
   \<and> Ev_GenerateCertificates plan0 True
     \<notin> set (calls (snd (snd (install (env0 0 True) (ctl0 installed)
          (world0 (cluster0 installing installed False))
          (cluster0 installing installed False)))))"
proof -
  have i: "calls (snd (snd (install (env0 0 True) (ctl0 installed)
          (world0 (cluster0 installing installed False))
          (cluster0 installing installed False)))) =
     [Ev_RunPreFlightCheck plan0, Ev_GenerateCertificates plan0 False,
      Ev_GenerateKubeconfig plan0, Ev_Install plan0 True, Ev_RunSmokeTest plan0]"
    by (simp add: install_def called_def Let_def test_defs)
  have l: "length (calls (world0 (cluster0 installing installed False))) = 0"
    by (simp add: world0_def)
  from install_flags [where e = "env0 0 True" and c = "ctl0 installed"
      and w = "world0 (cluster0 installing installed False)"
      and cluster = "cluster0 installing installed False"]
  have "Ev_Install plan0 False
     \<notin> set (calls (snd (snd (install (env0 0 True) (ctl0 installed)
          (world0 (cluster0 installing installed False))
          (cluster0 installing installed False)))))
   \<and> Ev_GenerateCertificates plan0 True
     \<notin> set (calls (snd (snd (install (env0 0 True) (ctl0 installed)
          (world0 (cluster0 installing installed False))
          (cluster0 installing installed False)))))"
    unfolding l by auto
  with i show ?thesis by simp
qed

subsection \<open>C9: buildPlan\<close>

text \<open>
  C9: for every cluster name, spec and existing admin password, \<open>buildPlan\<close> returns an
  error exactly when writing the plan template fails or reading the plan back fails
  (with the message wrapped as the source does). When both succeed it returns the plan
  that was read, with the cluster name set and the provisioner replaced by one that
  carries the provider of the spec. For the provider \<open>azure\<close> the provider of the CNI
  add-on is \<open>weave\<close>; for \<open>aws\<close> the AWS options are the zero value and the add-ons are
  untouched; for any other provider nothing else is changed. \<open>buildPlan\<close> hands the
  existing password to the template and never writes the password of the plan it reads
  back, so the plan carries the existing password whenever the template keeps it.
\<close>

theorem buildPlan_result:
  fixes e :: env and name :: string and spec :: ClusterSpec and existingPassword :: string
    and t :: PlanTemplateOptions
  assumes t: "t = \<lparr>AdminPassword = existingPassword, EtcdNodes = EtcdCount spec,
                    MasterNodes = MasterCount spec, WorkerNodes = WorkerCount spec,
                    IngressNodes = IngressCount spec\<rparr>"
  shows
    "(isl (buildPlan e name spec existingPassword) \<longleftrightarrow>
        isl (WritePlanTemplate e t)
        \<or> (\<exists>planner. WritePlanTemplate e t = Inr planner \<and> isl (Read e planner)))
     \<and> (\<forall>err. WritePlanTemplate e t = Inl err \<longrightarrow>
          buildPlan e name spec existingPassword
            = Inl (''could not decode request body: '' @ err))
     \<and> (\<forall>planner err. WritePlanTemplate e t = Inr planner \<and> Read e planner = Inl err \<longrightarrow>
          buildPlan e name spec existingPassword = Inl (''could not read plan: '' @ err))
     \<and> (\<forall>planner p0. WritePlanTemplate e t = Inr planner \<and> Read e planner = Inr p0 \<longrightarrow>
          (\<exists>p. buildPlan e name spec existingPassword = Inr p
             \<and> Cluster_Name (Plan_Cluster p) = name
             \<and> Cluster_AdminPassword (Plan_Cluster p) = Cluster_AdminPassword (Plan_Cluster p0)
             \<and> (template_keeps_password e \<longrightarrow>
                  Cluster_AdminPassword (Plan_Cluster p) = existingPassword)
             \<and> Provisioner_Provider (Plan_Provisioner p) = Provider (Provisioner spec)
             \<and> Plan_Master p = Plan_Master p0
             \<and> (Provider (Provisioner spec) = ''azure'' \<longrightarrow>
                  CNI_Provider (AddOns_CNI (Plan_AddOns p)) = ''weave''
                  \<and> Provisioner_AWSOptions (Plan_Provisioner p) = None)
             \<and> (Provider (Provisioner spec) = ''aws'' \<longrightarrow>
                  Provisioner_AWSOptions (Plan_Provisioner p) = Some AWSProvisionerOptions_zero
                  \<and> Plan_AddOns p = Plan_AddOns p0)
             \<and> (Provider (Provisioner spec) \<noteq> ''aws''
                  \<and> Provider (Provisioner spec) \<noteq> ''azure'' \<longrightarrow>
                  p = p0\<lparr>Plan_Cluster := (Plan_Cluster p0)\<lparr>Cluster_Name := name\<rparr>,
                         Plan_Provisioner :=
                           \<lparr>Provisioner_Provider = Provider (Provisioner spec),
                            Provisioner_AWSOptions = None\<rparr>\<rparr>)))"
proof (intro conjI allI impI)
  show "isl (buildPlan e name spec existingPassword) \<longleftrightarrow>
        isl (WritePlanTemplate e t)
        \<or> (\<exists>planner. WritePlanTemplate e t = Inr planner \<and> isl (Read e planner))"
    unfolding t by (auto simp add: buildPlan_def Let_def split: sum.splits)
next
  fix err assume "WritePlanTemplate e t = Inl err"
  then show "buildPlan e name spec existingPassword
            = Inl (''could not decode request body: '' @ err)"
    unfolding t by (simp add: buildPlan_def)
next
  fix planner err assume "WritePlanTemplate e t = Inr planner \<and> Read e planner = Inl err"
  then show "buildPlan e name spec existingPassword = Inl (''could not read plan: '' @ err)"
    unfolding t by (simp add: buildPlan_def)
next
  fix planner p0 assume a: "WritePlanTemplate e t = Inr planner \<and> Read e planner = Inr p0"
  have k: "template_keeps_password e \<longrightarrow> Cluster_AdminPassword (Plan_Cluster p0) = existingPassword"
    using a unfolding template_keeps_password_def t by fastforce
  from a k show "\<exists>p. buildPlan e name spec existingPassword = Inr p
             \<and> Cluster_Name (Plan_Cluster p) = name
             \<and> Cluster_AdminPassword (Plan_Cluster p) = Cluster_AdminPassword (Plan_Cluster p0)
             \<and> (template_keeps_password e \<longrightarrow>
                  Cluster_AdminPassword (Plan_Cluster p) = existingPassword)
             \<and> Provisioner_Provider (Plan_Provisioner p) = Provider (Provisioner spec)
             \<and> Plan_Master p = Plan_Master p0
             \<and> (Provider (Provisioner spec) = ''azure'' \<longrightarrow>
                  CNI_Provider (AddOns_CNI (Plan_AddOns p)) = ''weave''
                  \<and> Provisioner_AWSOptions (Plan_Provisioner p) = None)
             \<and> (Provider (Provisioner spec) = ''aws'' \<longrightarrow>
                  Provisioner_AWSOptions (Plan_Provisioner p) = Some AWSProvisionerOptions_zero
                  \<and> Plan_AddOns p = Plan_AddOns p0)
             \<and> (Provider (Provisioner spec) \<noteq> ''aws''
                  \<and> Provider (Provisioner spec) \<noteq> ''azure'' \<longrightarrow>
                  p = p0\<lparr>Plan_Cluster := (Plan_Cluster p0)\<lparr>Cluster_Name := name\<rparr>,
                         Plan_Provisioner :=
                           \<lparr>Provisioner_Provider = Provider (Provisioner spec),
                            Provisioner_AWSOptions = None\<rparr>\<rparr>)"
    unfolding t by (simp add: buildPlan_def Let_def)
qed

lemma env0_keeps_password: "template_keeps_password (env0 0 net)"
  by (auto simp add: template_keeps_password_def env0_def)

theorem buildPlan_result_witness:
  "buildPlan (env0 0 True) ''c1'' (spec0 ''azure'' installed) ''secret'' =
     Inr \<lparr>Plan_Cluster = \<lparr>Cluster_Name = ''c1'', Cluster_AdminPassword = ''secret''\<rparr>,
          Plan_Provisioner = \<lparr>Provisioner_Provider = ''azure'', Provisioner_AWSOptions = None\<rparr>,
          Plan_AddOns = \<lparr>AddOns_CNI = \<lparr>CNI_Provider = ''weave''\<rparr>\<rparr>,
          Plan_Master = \<lparr>LoadBalancedFQDN = ''lb.example''\<rparr>\<rparr>
   \<and> buildPlan (env0 0 True) ''c1'' (spec0 ''aws'' installed) ''secret'' =
     Inr \<lparr>Plan_Cluster = \<lparr>Cluster_Name = ''c1'', Cluster_AdminPassword = ''secret''\<rparr>,
          Plan_Provisioner = \<lparr>Provisioner_Provider = ''aws'',
                              Provisioner_AWSOptions = Some \<lparr>Region = []\<rparr>\<rparr>,
          Plan_AddOns = \<lparr>AddOns_CNI = \<lparr>CNI_Provider = ''calico''\<rparr>\<rparr>,
          Plan_Master = \<lparr>LoadBalancedFQDN = ''lb.example''\<rparr>\<rparr>
   \<and> buildPlan (env0 0 True) ''c1'' (spec0 ''vagrant'' installed) ''secret'' =
     Inr \<lparr>Plan_Cluster = \<lparr>Cluster_Name = ''c1'', Cluster_AdminPassword = ''secret''\<rparr>,
          Plan_Provisioner = \<lparr>Provisioner_Provider = ''vagrant'',
                              Provisioner_AWSOptions = None\<rparr>,
          Plan_AddOns = \<lparr>AddOns_CNI = \<lparr>CNI_Provider = ''calico''\<rparr>\<rparr>,
          Plan_Master = \<lparr>LoadBalancedFQDN = ''lb.example''\<rparr>\<rparr>
   \<and> buildPlan (env0 1 True) ''c1'' (spec0 ''aws'' installed) ''secret'' =
     Inl ''could not decode request body: template''"
proof -
  have az: "buildPlan (env0 0 True) ''c1'' (spec0 ''azure'' installed) ''secret'' =
     Inr \<lparr>Plan_Cluster = \<lparr>Cluster_Name = ''c1'', Cluster_AdminPassword = ''secret''\<rparr>,
          Plan_Provisioner = \<lparr>Provisioner_Provider = ''azure'', Provisioner_AWSOptions = None\<rparr>,
          Plan_AddOns = \<lparr>AddOns_CNI = \<lparr>CNI_Provider = ''weave''\<rparr>\<rparr>,
          Plan_Master = \<lparr>LoadBalancedFQDN = ''lb.example''\<rparr>\<rparr>"
    using buildPlan_result [where e = "env0 0 True" and name = "''c1''"
        and spec = "spec0 ''azure'' installed" and existingPassword = "''secret''", OF refl]
      env0_keeps_password [of True]
    by (auto simp add: test_defs)
  have aws: "buildPlan (env0 0 True) ''c1'' (spec0 ''aws'' installed) ''secret'' =
     Inr \<lparr>Plan_Cluster = \<lparr>Cluster_Name = ''c1'', Cluster_AdminPassword = ''secret''\<rparr>,
          Plan_Provisioner = \<lparr>Provisioner_Provider = ''aws'',
                              Provisioner_AWSOptions = Some \<lparr>Region = []\<rparr>\<rparr>,
          Plan_AddOns = \<lparr>AddOns_CNI = \<lparr>CNI_Provider = ''calico''\<rparr>\<rparr>,
          Plan_Master = \<lparr>LoadBalancedFQDN = ''lb.example''\<rparr>\<rparr>"
    using buildPlan_result [where e = "env0 0 True" and name = "''c1''"
        and spec = "spec0 ''aws'' installed" and existingPassword = "''secret''", OF refl]
      env0_keeps_password [of True]
    by (auto simp add: test_defs AWSProvisionerOptions_zero_def)
  have other: "buildPlan (env0 0 True) ''c1'' (spec0 ''vagrant'' installed) ''secret'' =
     Inr \<lparr>Plan_Cluster = \<lparr>Cluster_Name = ''c1'', Cluster_AdminPassword = ''secret''\<rparr>,
          Plan_Provisioner = \<lparr>Provisioner_Provider = ''vagrant'',
                              Provisioner_AWSOptions = None\<rparr>,
          Plan_AddOns = \<lparr>AddOns_CNI = \<lparr>CNI_Provider = ''calico''\<rparr>\<rparr>,
          Plan_Master = \<lparr>LoadBalancedFQDN = ''lb.example''\<rparr>\<rparr>"
    using buildPlan_result [where e = "env0 0 True" and name = "''c1''"
        and spec = "spec0 ''vagrant'' installed" and existingPassword = "''secret''", OF refl]
    by (auto simp add: test_defs)
  have err: "buildPlan (env0 1 True) ''c1'' (spec0 ''aws'' installed) ''secret'' =
     Inl ''could not decode request body: template''"
    using buildPlan_result [where e = "env0 1 True" and name = "''c1''"
        and spec = "spec0 ''aws'' installed" and existingPassword = "''secret''", OF refl]
    by (simp add: test_defs)
  from az aws other err show ?thesis by simp
qed

subsection \<open>The loop: what a pass adds to the history\<close>

lemma Get_calls: "calls (snd (Get e w name)) = calls w @ [Ev_Get name]"
  by (simp add: Get_def called_def Let_def split: option.splits)

lemma Get_clusters: "clusters (snd (Get e w name)) = External e (calls w) (clusters w)"
  by (simp add: Get_def called_def Let_def split: option.splits)

lemma Get_Inr:
  "Get e w name = (Inr cluster, w1) \<Longrightarrow> External e (calls w) (clusters w) name = Some cluster"
  by (simp add: Get_def called_def Let_def split: option.splits)

lemma Put_calls: "calls (snd (Put e w name cluster)) = calls w @ [Ev_Put name cluster]"
  by (simp add: Put_def called_def split: option.splits)

lemma Delete_calls: "calls (snd (Delete e w name)) = calls w @ [Ev_Delete name]"
  by (simp add: Delete_def called_def split: option.splits)

lemma plan_calls: "calls (snd (snd (plan e c w cluster))) = calls w"
  by (simp add: plan_def split: sum.splits)

lemma provision_calls:
  "calls (snd (snd (provision e c w cluster))) = calls w @ [Ev_Provision cluster (installPlan c)]"
  by (simp add: provision_def called_def Let_def split: sum.splits)

lemma destroy_calls:
  "calls (snd (snd (destroy e c w cluster))) = calls w @ [Ev_Destroy cluster (clusterName c)]"
  by (simp add: destroy_def called_def Let_def split: option.splits)

lemma install_calls: "prefix (calls w) (calls (snd (snd (install e c w cluster))))"
proof -
  obtain r_pre p_pre where s1: "RunPreFlightCheck e (calls w) (installPlan c) = (r_pre, p_pre)"
    by fastforce
  obtain r_cert p_cert where
    s2: "GenerateCertificates e (calls w @ [Ev_RunPreFlightCheck (installPlan c)]) p_pre False
           = (r_cert, p_cert)"
    by fastforce
  obtain r_kube where s3: "GenerateKubeconfig e
           (calls w @ [Ev_RunPreFlightCheck (installPlan c), Ev_GenerateCertificates p_pre False])
           p_cert = r_kube"
    by simp
  obtain r_inst p_inst where s4: "Install e
           (calls w @ [Ev_RunPreFlightCheck (installPlan c), Ev_GenerateCertificates p_pre False,
                       Ev_GenerateKubeconfig p_cert]) p_cert True = (r_inst, p_inst)"
    by fastforce
  obtain r_smoke p_smoke where s5: "RunSmokeTest e
           (calls w @ [Ev_RunPreFlightCheck (installPlan c), Ev_GenerateCertificates p_pre False,
                       Ev_GenerateKubeconfig p_cert, Ev_Install p_cert True]) p_inst
           = (r_smoke, p_smoke)"
    by fastforce
  show ?thesis
    unfolding install_outcome [OF s1 s2 s3 s4 s5]
    by simp
qed

lemma transition_calls: "prefix (calls w) (calls (snd (snd (transition e c w cluster))))"
  by (simp add: transition_def plan_calls provision_calls destroy_calls install_calls)

text \<open>
  A pass that finds a record that is neither idle nor stalled records the invocation of
  \<open>transition\<close> right after its first read of the store.
\<close>

lemma cycle_active_calls:
  assumes g: "Get e w (clusterName c) = (Inr loaded, w1)"
    and cl: "cluster = (if Spec loaded \<noteq> clusterSpec c \<and> DesiredState (Spec loaded) \<noteq> destroyed
                       then setCurrentState planning loaded else loaded)"
    and ns: "\<not> settled cluster"
  shows "prefix (calls w1 @ [Ev_Transition cluster]) (calls (snd (snd (cycle e c w))))"
proof -
  let ?w1' = "called (Ev_Transition cluster) w1"
  obtain tc c2 w2 where t: "transition e c ?w1' cluster = (tc, c2, w2)"
    using prod_cases3 by blast
  have p2: "prefix (calls w1 @ [Ev_Transition cluster]) (calls w2)"
    using transition_calls [of ?w1' e c cluster] unfolding t by (simp add: called_def)
  obtain r w3 where g2: "Get e w2 (clusterName c2) = (r, w3)" by fastforce
  have p3: "prefix (calls w2) (calls w3)"
    using Get_calls [of e w2 "clusterName c2"] by (simp add: g2)
  define pr where "pr latest = fst (Put e w3 (clusterName c2) (latest\<lparr>Status := Status tc\<rparr>))"
    for latest
  define w4 where "w4 latest = snd (Put e w3 (clusterName c2) (latest\<lparr>Status := Status tc\<rparr>))"
    for latest
  have pu: "\<And>latest. Put e w3 (clusterName c2) (latest\<lparr>Status := Status tc\<rparr>)
              = (pr latest, w4 latest)"
    by (simp add: pr_def w4_def)
  have p4: "\<And>latest. prefix (calls w3) (calls (w4 latest))"
    by (simp add: w4_def Put_calls)
  have p5: "\<And>x. prefix (calls x) (calls (snd (Delete e x (clusterName c2))))"
    by (simp add: Delete_calls)
  have unf: "cycle e c w =
     (case r of
        Inl err \<Rightarrow> (False, c2, w3)
      | Inr latest \<Rightarrow>
          (case pr latest of
             Some err \<Rightarrow> (False, c2, w4 latest)
           | None \<Rightarrow>
               if CurrentState (Status tc) = destroyed then
                 (case Delete e (w4 latest) (clusterName c2) of
                    (Some err, w5) \<Rightarrow> (False, c2\<lparr>clusterSpec := Spec latest\<rparr>, w5)
                  | (None, w5) \<Rightarrow> (True, c2\<lparr>clusterSpec := Spec latest\<rparr>, w5))
               else (False, c2\<lparr>clusterSpec := Spec latest\<rparr>, w4 latest)))"
    using g cl ns t g2 pu
    by (auto simp add: cycle_def settled_def Let_def split: sum.splits option.splits)
  have "prefix (calls w2) (calls (snd (snd (cycle e c w))))"
  proof (cases r)
    case (Inl err)
    then show ?thesis using p3 by (simp add: unf)
  next
    case (Inr latest)
    have a: "prefix (calls w2) (calls (w4 latest))"
      using p3 p4 by (rule prefix_order.trans)
    have b: "prefix (calls w2) (calls (snd (Delete e (w4 latest) (clusterName c2))))"
      using a p5 by (rule prefix_order.trans)
    show ?thesis
      using a b Inr
      by (auto simp add: unf split: option.splits prod.splits)
  qed
  with p2 show ?thesis by (rule prefix_order.trans)
qed

text \<open>
  A pass that finds a record that waits for a manual retry, or that is destroyed as
  desired, only reads the store; so does every run of such passes.
\<close>

lemma quiet_cycle:
  assumes q: "\<forall>cluster. External e (calls w) (clusters w) (clusterName c) = Some cluster \<longrightarrow>
                WaitingForManualRetry (Status cluster)
                \<or> (CurrentState (Status cluster) = destroyed
                    \<and> DesiredState (Spec cluster) = destroyed)"
  shows "cycle e c w = (False, c, snd (Get e w (clusterName c)))"
proof -
  obtain r w1 where g: "Get e w (clusterName c) = (r, w1)" by fastforce
  show ?thesis
  proof (cases r)
    case (Inl err)
    with g show ?thesis by (simp add: cycle_def)
  next
    case (Inr loaded)
    with g have "External e (calls w) (clusters w) (clusterName c) = Some loaded"
      by (simp add: Get_Inr)
    with q have "WaitingForManualRetry (Status loaded)
                \<or> (CurrentState (Status loaded) = destroyed
                    \<and> DesiredState (Spec loaded) = destroyed)"
      by simp
    with g Inr show ?thesis
      by (auto simp add: cycle_def Let_def setCurrentState_def)
  qed
qed

lemma quiet_run:
  assumes ext: "\<forall>h s. Q s \<longrightarrow> Q (External e h s)"
    and q: "\<forall>s cluster. Q s \<and> s (clusterName c) = Some cluster \<longrightarrow>
              WaitingForManualRetry (Status cluster)
              \<or> (CurrentState (Status cluster) = destroyed
                  \<and> DesiredState (Spec cluster) = destroyed)"
    and w: "Q (clusters w)"
  shows "fst (run e n c w) = False \<and> fst (snd (run e n c w)) = c
         \<and> calls (snd (snd (run e n c w))) = calls w @ replicate n (Ev_Get (clusterName c))
         \<and> Q (clusters (snd (snd (run e n c w))))"
  using w
proof (induction n arbitrary: w)
  case 0
  then show ?case by simp
next
  case (Suc n)
  let ?w1 = "snd (Get e w (clusterName c))"
  have qe: "Q (External e (calls w) (clusters w))" using ext Suc.prems by simp
  have cy: "cycle e c w = (False, c, ?w1)"
    using q qe by (intro quiet_cycle) blast
  have q1: "Q (clusters ?w1)" using qe by (simp add: Get_clusters)
  have c1: "calls ?w1 = calls w @ [Ev_Get (clusterName c)]" by (simp add: Get_calls)
  from Suc.IH [OF q1] show ?case
    by (simp add: cy c1 replicate_app_Cons_same)
qed

subsection \<open>C4: a spec edit restarts from planning, unless the cluster is to be destroyed\<close>

text \<open>
  C4: in a pass of the loop whose read of the store returns the record \<open>loaded\<close>: if the
  spec of \<open>loaded\<close> differs from the controller's cached spec and its desired state is
  not \<open>destroyed\<close>, the idle check is made on the record with the current state
  \<open>planning\<close> (the pass ends there exactly when the desired state is \<open>planning\<close> or the
  record waits for a manual retry) and \<open>transition\<close> is invoked on that record. If the
  desired state is \<open>destroyed\<close>, the idle check and \<open>transition\<close> see the record as it was
  loaded, whether the spec differs or not.
\<close>

theorem cycle_replans_on_spec_change:
  assumes g: "Get e w (clusterName c) = (Inr loaded, w1)"
  shows
    "(Spec loaded \<noteq> clusterSpec c \<and> DesiredState (Spec loaded) \<noteq> destroyed \<longrightarrow>
        (if DesiredState (Spec loaded) = planning \<or> WaitingForManualRetry (Status loaded)
         then cycle e c w = (False, c, w1)
         else prefix (calls w1 @ [Ev_Transition (setCurrentState planning loaded)])
                (calls (snd (snd (cycle e c w))))))
     \<and> (DesiredState (Spec loaded) = destroyed \<longrightarrow>
        (if CurrentState (Status loaded) = destroyed \<or> WaitingForManualRetry (Status loaded)
         then cycle e c w = (False, c, w1)
         else prefix (calls w1 @ [Ev_Transition loaded]) (calls (snd (snd (cycle e c w))))))"
proof (intro conjI impI)
  assume a: "Spec loaded \<noteq> clusterSpec c \<and> DesiredState (Spec loaded) \<noteq> destroyed"
  have idle: "DesiredState (Spec loaded) = planning \<or> WaitingForManualRetry (Status loaded) \<Longrightarrow>
     cycle e c w = (False, c, w1)"
    using g a by (auto simp add: cycle_def Let_def setCurrentState_def)
  have act: "\<not> (DesiredState (Spec loaded) = planning \<or> WaitingForManualRetry (Status loaded)) \<Longrightarrow>
     prefix (calls w1 @ [Ev_Transition (setCurrentState planning loaded)])
                (calls (snd (snd (cycle e c w))))"
    using a by (intro cycle_active_calls [OF g]) (auto simp add: settled_def setCurrentState_def)
  from idle act show "if DesiredState (Spec loaded) = planning \<or> WaitingForManualRetry (Status loaded)
         then cycle e c w = (False, c, w1)
         else prefix (calls w1 @ [Ev_Transition (setCurrentState planning loaded)])
                (calls (snd (snd (cycle e c w))))"
    by simp
next
  assume a: "DesiredState (Spec loaded) = destroyed"
  have idle: "CurrentState (Status loaded) = destroyed \<or> WaitingForManualRetry (Status loaded) \<Longrightarrow>
     cycle e c w = (False, c, w1)"
    using g a by (auto simp add: cycle_def Let_def setCurrentState_def)
  have act: "\<not> (CurrentState (Status loaded) = destroyed \<or> WaitingForManualRetry (Status loaded)) \<Longrightarrow>
     prefix (calls w1 @ [Ev_Transition loaded]) (calls (snd (snd (cycle e c w))))"
    using a by (intro cycle_active_calls [OF g]) (auto simp add: settled_def)
  from idle act show "if CurrentState (Status loaded) = destroyed \<or> WaitingForManualRetry (Status loaded)
         then cycle e c w = (False, c, w1)
         else prefix (calls w1 @ [Ev_Transition loaded]) (calls (snd (snd (cycle e c w))))"
    by simp
qed

theorem cycle_replans_on_spec_change_witness:
  "prefix
     [Ev_Get ''c1'',
      Ev_Transition \<lparr>Spec = spec0 ''azure'' installed,
                      Status = \<lparr>CurrentState = planning, WaitingForManualRetry = False,
                                ClusterIP = []\<rparr>\<rparr>]
     (calls (snd (snd (cycle (env0 0 True) (ctl0 installed)
        (world0 \<lparr>Spec = spec0 ''azure'' installed,
                 Status = \<lparr>CurrentState = installed, WaitingForManualRetry = False,
                           ClusterIP = []\<rparr>\<rparr>)))))
   \<and> prefix
     [Ev_Get ''c1'',
      Ev_Transition \<lparr>Spec = spec0 ''azure'' destroyed,
                      Status = \<lparr>CurrentState = installed, WaitingForManualRetry = False,
                                ClusterIP = []\<rparr>\<rparr>]
     (calls (snd (snd (cycle (env0 0 True) (ctl0 installed)
        (world0 \<lparr>Spec = spec0 ''azure'' destroyed,
                 Status = \<lparr>CurrentState = installed, WaitingForManualRetry = False,
                           ClusterIP = []\<rparr>\<rparr>)))))"
proof -
  let ?a = "\<lparr>Spec = spec0 ''azure'' installed,
             Status = \<lparr>CurrentState = installed, WaitingForManualRetry = False,
                       ClusterIP = []\<rparr>\<rparr>"
  let ?b = "\<lparr>Spec = spec0 ''azure'' destroyed,
             Status = \<lparr>CurrentState = installed, WaitingForManualRetry = False,
                       ClusterIP = []\<rparr>\<rparr>"
  have ga: "Get (env0 0 True) (world0 ?a) (clusterName (ctl0 installed))
            = (Inr ?a, \<lparr>clusters = [''c1'' \<mapsto> ?a], calls = [Ev_Get ''c1'']\<rparr>)"
    by (simp add: Get_def called_def Let_def env0_def world0_def ctl0_def)
  have gb: "Get (env0 0 True) (world0 ?b) (clusterName (ctl0 installed))
            = (Inr ?b, \<lparr>clusters = [''c1'' \<mapsto> ?b], calls = [Ev_Get ''c1'']\<rparr>)"
    by (simp add: Get_def called_def Let_def env0_def world0_def ctl0_def)
  from cycle_replans_on_spec_change [OF ga] cycle_replans_on_spec_change [OF gb]
  show ?thesis
    by (simp add: ctl0_def spec0_def setCurrentState_def state_defs)
qed

subsection \<open>C7: a stalled cluster is left alone\<close>

text \<open>
  C7: if the record on file waits for a manual retry, and other parties may edit the
  record in any way between and during the passes as long as they do not clear the flag,
  then a run of the loop over any number \<open>n\<close> of notifications only reads the store,
  once per notification: it never invokes \<open>transition\<close>, never writes to the store, never
  calls a collaborator, leaves the controller as it was, and the record still waits.
\<close>

theorem stalled_run:
  assumes ext: "\<forall>h s. waiting_on_file (clusterName c) s \<longrightarrow>
                  waiting_on_file (clusterName c) (External e h s)"
    and w: "waiting_on_file (clusterName c) (clusters w)"
  shows "fst (run e n c w) = False \<and> fst (snd (run e n c w)) = c
         \<and> calls (snd (snd (run e n c w))) = calls w @ replicate n (Ev_Get (clusterName c))
         \<and> waiting_on_file (clusterName c) (clusters (snd (snd (run e n c w))))"
proof (rule quiet_run [where Q = "waiting_on_file (clusterName c)"])
  show "\<forall>h s. waiting_on_file (clusterName c) s \<longrightarrow>
                  waiting_on_file (clusterName c) (External e h s)"
    by (rule ext)
  show "\<forall>s cluster. waiting_on_file (clusterName c) s \<and> s (clusterName c) = Some cluster \<longrightarrow>
              WaitingForManualRetry (Status cluster)
              \<or> (CurrentState (Status cluster) = destroyed
                  \<and> DesiredState (Spec cluster) = destroyed)"
    by (auto simp add: waiting_on_file_def)
  show "waiting_on_file (clusterName c) (clusters w)" by (rule w)
qed

theorem stalled_run_witness:
  "calls (snd (snd (run env_editing 3 (ctl0 installed)
       (world0 (cluster0 provisionFailed installed True)))))
     = [Ev_Get ''c1'', Ev_Get ''c1'', Ev_Get ''c1'']
   \<and> fst (run env_editing 3 (ctl0 installed)
       (world0 (cluster0 provisionFailed installed True))) = False
   \<and> clusters (snd (snd (run env_editing 3 (ctl0 installed)
       (world0 (cluster0 provisionFailed installed True))))) ''c1''
     = Some ((cluster0 provisionFailed installed True)
              \<lparr>Spec := (spec0 ''aws'' installed)\<lparr>WorkerCount := 5\<rparr>\<rparr>)"
proof -
  have e: "\<forall>h s. waiting_on_file (clusterName (ctl0 installed)) s \<longrightarrow>
                  waiting_on_file (clusterName (ctl0 installed)) (External env_editing h s)"
    by (auto simp add: waiting_on_file_def env_editing_def ctl0_def split: option.splits)
  have w: "waiting_on_file (clusterName (ctl0 installed))
             (clusters (world0 (cluster0 provisionFailed installed True)))"
    by (simp add: waiting_on_file_def test_defs)
  have s: "clusters (snd (snd (run env_editing 3 (ctl0 installed)
       (world0 (cluster0 provisionFailed installed True))))) ''c1''
     = Some ((cluster0 provisionFailed installed True)
              \<lparr>Spec := (spec0 ''aws'' installed)\<lparr>WorkerCount := 5\<rparr>\<rparr>)"
    by (simp add: numeral_3_eq_3 cycle_def Get_def called_def Let_def env_editing_def
        test_defs setCurrentState_def state_defs)
  from stalled_run [OF e w, of 3] s show ?thesis
    by (simp add: numeral_3_eq_3 ctl0_def world0_def)
qed

subsection \<open>C8: a failed deletion is never retried\<close>

text \<open>
  C8: a pass finds the record in the state \<open>destroying\<close> with the desired state
  \<open>destroyed\<close>; the destruction succeeds, the record is read again (still to be
  destroyed) and stored, and the deletion from the store fails. Then the pass ends with
  the record on file in the current state \<open>destroyed\<close>, equal to its desired state, and
  the loop goes on. As long as other parties leave the record destroyed as desired,
  every later notification only reads the store: the history of the whole run holds one
  deletion, the failed one, and no later invocation of \<open>transition\<close>.
\<close>

theorem failed_delete_is_not_retried:
  fixes e :: env and c :: clusterController and w w1 w3 :: world
    and loaded latest merged :: Cluster and err :: error and n :: nat
  assumes g1: "Get e w (clusterName c) = (Inr loaded, w1)"
    and cur: "CurrentState (Status loaded) = destroying"
    and des: "DesiredState (Spec loaded) = destroyed"
    and nw: "\<not> WaitingForManualRetry (Status loaded)"
    and d: "Destroy e (calls w1 @ [Ev_Transition loaded]) loaded (clusterName c) = None"
    and g2: "Get e (w1\<lparr>calls := calls w1 @ [Ev_Transition loaded,
                                            Ev_Destroy loaded (clusterName c)]\<rparr>)
               (clusterName c) = (Inr latest, w3)"
    and des2: "DesiredState (Spec latest) = destroyed"
    and m: "merged = latest\<lparr>Status := (Status loaded)\<lparr>CurrentState := destroyed\<rparr>\<rparr>"
    and p: "PutErr e (calls w3) (clusterName c) merged = None"
    and del: "DeleteErr e (calls w3 @ [Ev_Put (clusterName c) merged]) (clusterName c)
               = Some err"
    and ext: "\<forall>h s. destroyed_on_file (clusterName c) s \<longrightarrow>
                destroyed_on_file (clusterName c) (External e h s)"
  shows
    "cycle e c w =
       (False, c\<lparr>clusterSpec := Spec latest\<rparr>,
        w3\<lparr>clusters := (clusters w3)(clusterName c \<mapsto> merged),
           calls := calls w3 @ [Ev_Put (clusterName c) merged, Ev_Delete (clusterName c)]\<rparr>)
     \<and> CurrentState (Status merged) = destroyed
     \<and> DesiredState (Spec merged) = destroyed
     \<and> fst (run e (Suc n) c w) = False
     \<and> calls (snd (snd (run e (Suc n) c w))) =
         calls w @
         [Ev_Get (clusterName c), Ev_Transition loaded, Ev_Destroy loaded (clusterName c),
          Ev_Get (clusterName c), Ev_Put (clusterName c) merged, Ev_Delete (clusterName c)]
         @ replicate n (Ev_Get (clusterName c))
     \<and> destroyed_on_file (clusterName c) (clusters (snd (snd (run e (Suc n) c w))))"
proof -
  let ?c3 = "c\<lparr>clusterSpec := Spec latest\<rparr>"
  let ?w5 = "w3\<lparr>clusters := (clusters w3)(clusterName c \<mapsto> merged),
           calls := calls w3 @ [Ev_Put (clusterName c) merged, Ev_Delete (clusterName c)]\<rparr>"
  have t: "transition e c (w1\<lparr>calls := calls w1 @ [Ev_Transition loaded]\<rparr>) loaded =
             (setCurrentState destroyed loaded, c,
              w1\<lparr>calls := calls w1 @ [Ev_Transition loaded,
                                      Ev_Destroy loaded (clusterName c)]\<rparr>)"
    using cur des d
    by (simp add: transition_destroying destroy_def called_def Let_def destroying_def
        destroyed_def)
  have cy: "cycle e c w = (False, ?c3, ?w5)"
    using g1 cur des nw g2 p del
    by (simp add: cycle_def called_def t Let_def m Put_def Delete_def setCurrentState_def
        destroying_def destroyed_def)
  have c1: "calls w1 = calls w @ [Ev_Get (clusterName c)]"
    using Get_calls [of e w "clusterName c"] by (simp add: g1)
  have c3: "calls w3 = calls w @ [Ev_Get (clusterName c), Ev_Transition loaded,
              Ev_Destroy loaded (clusterName c), Ev_Get (clusterName c)]"
    using Get_calls [of e "w1\<lparr>calls := calls w1 @ [Ev_Transition loaded,
                                            Ev_Destroy loaded (clusterName c)]\<rparr>" "clusterName c"]
    unfolding g2 by (simp add: c1)
  have mm: "CurrentState (Status merged) = destroyed \<and> DesiredState (Spec merged) = destroyed"
    by (simp add: m des2)
  have on: "destroyed_on_file (clusterName ?c3) (clusters ?w5)"
    using mm by (simp add: destroyed_on_file_def)
  have ext3: "\<forall>h s. destroyed_on_file (clusterName ?c3) s \<longrightarrow>
                destroyed_on_file (clusterName ?c3) (External e h s)"
    using ext by simp
  have q: "\<forall>s cluster. destroyed_on_file (clusterName ?c3) s \<and> s (clusterName ?c3) = Some cluster
             \<longrightarrow> WaitingForManualRetry (Status cluster)
              \<or> (CurrentState (Status cluster) = destroyed
                  \<and> DesiredState (Spec cluster) = destroyed)"
    by (auto simp add: destroyed_on_file_def)
  from quiet_run [where Q = "destroyed_on_file (clusterName ?c3)", OF ext3 q on, of n]
  have r: "fst (run e n ?c3 ?w5) = False
         \<and> calls (snd (snd (run e n ?c3 ?w5))) = calls ?w5 @ replicate n (Ev_Get (clusterName c))
         \<and> destroyed_on_file (clusterName c) (clusters (snd (snd (run e n ?c3 ?w5))))"
    by simp
  have ru: "run e (Suc n) c w = run e n ?c3 ?w5"
    by (simp add: cy)
  show ?thesis
    using r mm unfolding ru by (simp add: cy c3)
qed

theorem failed_delete_is_not_retried_witness:
  "calls (snd (snd (run (env0 9 True) (Suc 2) (ctl0 destroyed)
       (world0 (cluster0 destroying destroyed False))))) =
     [Ev_Get ''c1'', Ev_Transition (cluster0 destroying destroyed False),
      Ev_Destroy (cluster0 destroying destroyed False) ''c1'',
      Ev_Get ''c1'', Ev_Put ''c1'' (cluster0 destroyed destroyed False), Ev_Delete ''c1'',
      Ev_Get ''c1'', Ev_Get ''c1'']
   \<and> fst (run (env0 9 True) (Suc 2) (ctl0 destroyed)
       (world0 (cluster0 destroying destroyed False))) = False
   \<and> clusters (snd (snd (cycle (env0 9 True) (ctl0 destroyed)
       (world0 (cluster0 destroying destroyed False))))) ''c1''
     = Some (cluster0 destroyed destroyed False)"
proof -
  let ?l = "cluster0 destroying destroyed False"
  let ?m = "cluster0 destroyed destroyed False"
  let ?w1 = "\<lparr>clusters = [''c1'' \<mapsto> ?l], calls = [Ev_Get ''c1'']\<rparr>"
  let ?w3 = "\<lparr>clusters = [''c1'' \<mapsto> ?l],
              calls = [Ev_Get ''c1'', Ev_Transition ?l, Ev_Destroy ?l ''c1'', Ev_Get ''c1'']\<rparr>"
  have n: "clusterName (ctl0 destroyed) = ''c1''" by (simp add: ctl0_def)
  have g1: "Get (env0 9 True) (world0 ?l) (clusterName (ctl0 destroyed)) = (Inr ?l, ?w1)"
    by (simp add: Get_def called_def Let_def env0_def world0_def ctl0_def)
  have cur: "CurrentState (Status ?l) = destroying" by (simp add: cluster0_def)
  have des: "DesiredState (Spec ?l) = destroyed" by (simp add: cluster0_def spec0_def)
  have nw: "\<not> WaitingForManualRetry (Status ?l)" by (simp add: cluster0_def)
  have d: "Destroy (env0 9 True) (calls ?w1 @ [Ev_Transition ?l]) ?l
             (clusterName (ctl0 destroyed)) = None"
    by (simp add: env0_def)
  have g2: "Get (env0 9 True)
              (?w1\<lparr>calls := calls ?w1 @ [Ev_Transition ?l,
                                        Ev_Destroy ?l (clusterName (ctl0 destroyed))]\<rparr>)
               (clusterName (ctl0 destroyed)) = (Inr ?l, ?w3)"
    by (simp add: Get_def called_def Let_def env0_def ctl0_def)
  have m: "?m = ?l\<lparr>Status := (Status ?l)\<lparr>CurrentState := destroyed\<rparr>\<rparr>"
    by (simp add: cluster0_def)
  have p: "PutErr (env0 9 True) (calls ?w3) (clusterName (ctl0 destroyed)) ?m = None"
    by (simp add: env0_def)
  have del: "DeleteErr (env0 9 True)
               (calls ?w3 @ [Ev_Put (clusterName (ctl0 destroyed)) ?m])
               (clusterName (ctl0 destroyed)) = Some ''delete''"
    by (simp add: env0_def)
  have ext: "\<forall>h s. destroyed_on_file (clusterName (ctl0 destroyed)) s \<longrightarrow>
                destroyed_on_file (clusterName (ctl0 destroyed)) (External (env0 9 True) h s)"
    by (simp add: env0_def)
  from failed_delete_is_not_retried [where n = 2, OF g1 cur des nw d g2 des m p del ext]
  show ?thesis
    by (simp add: n world0_def numeral_2_eq_2 del: run.simps)
qed

subsection \<open>When every action succeeds, transition follows the table\<close>











subsection \<open>The states transition can move to\<close>

lemma plan_state:
  "CurrentState (Status (fst (plan e c w cluster))) \<in> {planned, planningFailed}
   \<and> Spec (fst (plan e c w cluster)) = Spec cluster"
  by (simp add: plan_def setCurrentState_def setWaitingForManualRetry_def split: sum.splits)

lemma provision_state:
  "CurrentState (Status (fst (provision e c w cluster))) \<in> {provisioned, provisionFailed}
   \<and> Spec (fst (provision e c w cluster)) = Spec cluster"
  by (simp add: provision_def Let_def setCurrentState_def setWaitingForManualRetry_def
      setClusterIP_def split: sum.splits)

lemma destroy_state:
  "CurrentState (Status (fst (destroy e c w cluster))) \<in> {destroyed, destroyFailed}
   \<and> Spec (fst (destroy e c w cluster)) = Spec cluster"
  by (simp add: destroy_def Let_def setCurrentState_def setWaitingForManualRetry_def
      split: option.splits)

lemma install_state:
  "CurrentState (Status (fst (install e c w cluster))) \<in> {installed, installFailed}
   \<and> Spec (fst (install e c w cluster)) = Spec cluster"
  by (simp add: install_def Let_def setCurrentState_def setWaitingForManualRetry_def
      split: option.splits prod.splits)

lemma transition_Spec: "Spec (fst (transition e c w cluster)) = Spec cluster"
  by (simp add: transition_def plan_state provision_state destroy_state install_state
      setCurrentState_def setWaitingForManualRetry_def)






subsection \<open>C3: transition converges\<close>






end
